theory Spec2Isabelle
  imports Main "HOL-Library.Sublist"
begin

section \<open>JavaScript values\<close>

text \<open>
  The library is TypeScript; the values it inspects at run time are modelled by the
  datatypes below. Strings are lists of bytes (UTF-8), numbers are the integers. The only
  exception the library's own code can raise is a \<open>TypeError\<close>; a loader supplied by the
  host application may throw or reject with a value of its own.
\<close>

datatype js_error = TypeError

datatype js_primitive =
    JUndefined
  | JNull
  | JBoolean bool
  | JNumber int
  | JString string

datatype 'a exn = Raised js_error | Thrown 'a

datatype 'a promise = Fulfilled 'a | Rejected "'a exn" | Pending

datatype 'a call = Returns "'a promise" | Throws "'a exn"

text \<open>
  An object is the list of the properties that the \<open>in\<close> operator sees on it (its own and
  those of user-defined ancestors); the first binding of a key is the property's value. A
  function value is an object with an identity and with the outcome of calling it with no
  argument: a class called without \<open>new\<close> throws, a loader returns a promise.
\<close>

datatype js_value =
    Primitive js_primitive
  | JObject "(string \<times> js_value) list"
  | JFunction string "(string \<times> js_value) list" "js_value call"

fun typeof :: "js_value \<Rightarrow> string" where
  "typeof (Primitive JUndefined) = ''undefined''"
| "typeof (Primitive JNull) = ''object''"
| "typeof (Primitive (JBoolean b)) = ''boolean''"
| "typeof (Primitive (JNumber n)) = ''number''"
| "typeof (Primitive (JString s)) = ''string''"
| "typeof (JObject ps) = ''object''"
| "typeof (JFunction f ps c) = ''function''"

text \<open>\<open>key in v\<close>: a \<open>TypeError\<close> when \<open>v\<close> is not an object.\<close>

fun js_in :: "string \<Rightarrow> js_value \<Rightarrow> js_error + bool" where
  "js_in k (Primitive p) = Inl TypeError"
| "js_in k (JObject ps) = Inr (k \<in> set (map fst ps))"
| "js_in k (JFunction f ps c) = Inr (k \<in> set (map fst ps))"

text \<open>\<open>v.key\<close> on an object: \<open>undefined\<close> when there is no such property.\<close>

definition lookup_property :: "(string \<times> js_value) list \<Rightarrow> string \<Rightarrow> js_value" where
  "lookup_property ps k = (case map_of ps k of None \<Rightarrow> Primitive JUndefined | Some v \<Rightarrow> v)"

fun get_property :: "js_value \<Rightarrow> string \<Rightarrow> js_error + js_value" where
  "get_property (Primitive JUndefined) k = Inl TypeError"
| "get_property (Primitive JNull) k = Inl TypeError"
| "get_property (Primitive p) k = Inr (Primitive JUndefined)"
| "get_property (JObject ps) k = Inr (lookup_property ps k)"
| "get_property (JFunction f ps c) k = Inr (lookup_property ps k)"

text \<open>Truthiness of a primitive, as \<open>||\<close> and \<open>if\<close> test it.\<close>

fun truthy :: "js_primitive \<Rightarrow> bool" where
  "truthy JUndefined = False"
| "truthy JNull = False"
| "truthy (JBoolean b) = b"
| "truthy (JNumber n) = (n \<noteq> 0)"
| "truthy (JString s) = (s \<noteq> [])"

text \<open>
  \<open>s.replace(pat, rep)\<close> with a string pattern: the leftmost occurrence of \<open>pat\<close> is
  replaced, the rest of \<open>s\<close> is kept (\<open>rep\<close> holds no \<open>$\<close> pattern; the library passes the
  empty string).
\<close>

fun js_replace :: "string \<Rightarrow> string \<Rightarrow> string \<Rightarrow> string" where
  "js_replace [] pat rep = (if pat = [] then rep else [])"
| "js_replace (c # cs) pat rep =
     (if prefix pat (c # cs) then rep @ drop (length pat) (c # cs)
      else c # js_replace cs pat rep)"

section \<open>Tab descriptors (tab.interface.ts)\<close>

record tab =
  name :: string
  label :: string
  iconName :: string
  urlPath :: string
  component :: js_value

text \<open>
  The key that \<open>isLazyComponent\<close> looks for, as line 120 of tab.interface.ts writes it:
  the characters U+00C9 and U+00B5 followed by \<open>cmp\<close>, in the file the bytes
  C3 89 C2 B5 63 6D 70.
\<close>

definition tested_key :: string where
  "tested_key = [CHR 0xC3, CHR 0x89, CHR 0xC2, CHR 0xB5] @ ''cmp''"

text \<open>
  The marker property that the framework's compiler puts on a component class is the
  character U+0275 followed by \<open>cmp\<close>, the bytes C9 B5 63 6D 70: another key.
\<close>

definition component_marker :: string where
  "component_marker = [CHR 0xC9, CHR 0xB5] @ ''cmp''"

text \<open>
  \<open>typeof component === 'function' && !(marker in component)\<close>: the right operand is
  evaluated only when the left one holds.
\<close>

definition isLazyComponent :: "js_value \<Rightarrow> js_error + bool" where
  "isLazyComponent c =
     (if typeof c = ''function''
      then (case js_in tested_key c of Inl e \<Rightarrow> Inl e | Inr b \<Rightarrow> Inr (\<not> b))
      else Inr False)"

section \<open>Routes (route.utils.ts)\<close>

text \<open>
  The arrays of descriptors live in a store and are passed by reference. A value kept
  in a route's \<open>data\<close> is such a reference or a primitive.
\<close>

type_synonym ref = nat

type_synonym heap = "ref \<Rightarrow> tab list"

datatype data_value = ArrayRef ref | Prim js_primitive

text \<open>
  The arrow function that \<open>createComponentRoute\<close> stores under \<open>loadComponent\<close>, as the
  variable it closes over; \<open>invoke\<close> below runs it.
\<close>

datatype closure = LoadComponent js_value

text \<open>
  A route of the framework's router, with the properties this library sets; \<open>None\<close> is an
  absent property. The type of the values under \<open>data\<close> is a parameter, so that a route
  table can also be read with the arrays' contents in place of their references.
\<close>

datatype 'd route = Route
  (path: "string option")
  (routeComponent: "js_value option")
  (loadComponent: "closure option")
  (redirectTo: "string option")
  (pathMatch: "string option")
  (data: "(string \<times> 'd) list option")
  (children: "'d route list option")

text \<open>Object spread \<open>{...a, ...b}\<close>: a property of \<open>b\<close> wins over the same property of \<open>a\<close>.\<close>

definition override :: "'a option \<Rightarrow> 'a option \<Rightarrow> 'a option" where
  "override x y = (case y of None \<Rightarrow> x | Some v \<Rightarrow> Some v)"

definition spread :: "'d route \<Rightarrow> 'd route \<Rightarrow> 'd route" where
  "spread a b = Route
     (override (path a) (path b))
     (override (routeComponent a) (routeComponent b))
     (override (loadComponent a) (loadComponent b))
     (override (redirectTo a) (redirectTo b))
     (override (pathMatch a) (pathMatch b))
     (override (data a) (data b))
     (override (children a) (children b))"

definition createComponentRoute :: "js_value \<Rightarrow> js_error + 'd route" where
  "createComponentRoute c =
     (case isLazyComponent c of
        Inl e \<Rightarrow> Inl e
      | Inr True \<Rightarrow> Inr (Route None None (Some (LoadComponent c)) None None None None)
      | Inr False \<Rightarrow> Inr (Route None (Some c) None None None None None))"

text \<open>\<open>'default' in loaded ? loaded.default : loaded\<close>, the callback given to \<open>then\<close>.\<close>

definition unwrap_default :: "js_value \<Rightarrow> js_error + js_value" where
  "unwrap_default loaded =
     (case js_in ''default'' loaded of
        Inl e \<Rightarrow> Inl e
      | Inr True \<Rightarrow> get_property loaded ''default''
      | Inr False \<Rightarrow> Inr loaded)"

text \<open>
  \<open>p.then(f)\<close>: \<open>f\<close> runs on the value \<open>p\<close> is fulfilled with, and an exception of \<open>f\<close>
  rejects the result; a rejection of \<open>p\<close> passes through. No value of the model is a
  thenable.
\<close>

fun promise_then :: "'a promise \<Rightarrow> ('a \<Rightarrow> js_error + 'a) \<Rightarrow> 'a promise" where
  "promise_then (Fulfilled v) f = (case f v of Inl e \<Rightarrow> Rejected (Raised e) | Inr w \<Rightarrow> Fulfilled w)"
| "promise_then (Rejected r) f = Rejected r"
| "promise_then Pending f = Pending"

text \<open>Calling a value with no argument; only a function can be called.\<close>

fun js_call :: "js_value \<Rightarrow> js_value call" where
  "js_call (JFunction f ps c) = c"
| "js_call v = Throws (Raised TypeError)"

text \<open>\<open>() => component().then(loaded => ...)\<close>.\<close>

fun invoke :: "closure \<Rightarrow> js_value call" where
  "invoke (LoadComponent c) =
     (case js_call c of
        Throws e \<Rightarrow> Throws e
      | Returns p \<Rightarrow> Returns (promise_then p unwrap_default))"

text \<open>\<open>xs.map(f)\<close> where \<open>f\<close> may throw: the first exception ends the traversal.\<close>

fun array_map :: "('a \<Rightarrow> js_error + 'b) \<Rightarrow> 'a list \<Rightarrow> js_error + 'b list" where
  "array_map f [] = Inr []"
| "array_map f (x # xs) =
     (case f x of
        Inl e \<Rightarrow> Inl e
      | Inr y \<Rightarrow> (case array_map f xs of Inl e \<Rightarrow> Inl e | Inr ys \<Rightarrow> Inr (y # ys)))"

definition generateChildrenRoutes :: "heap \<Rightarrow> ref \<Rightarrow> js_error + data_value route list" where
  "generateChildrenRoutes h tabs =
     array_map
       (\<lambda>tab. case createComponentRoute (component tab) of
          Inl e \<Rightarrow> Inl e
        | Inr r \<Rightarrow>
            Inr (spread
              (Route (Some (js_replace (urlPath tab) ''/tabs/'' '''')) None None None None None None)
              r))
       (h tabs)"

text \<open>\<open>xs[i]\<close> is \<open>undefined\<close> past the end, and \<open>undefined.urlPath\<close> is a \<open>TypeError\<close>.\<close>

definition array_index :: "'a list \<Rightarrow> nat \<Rightarrow> 'a option" where
  "array_index xs i = (if i < length xs then Some (xs ! i) else None)"

definition read_urlPath :: "tab option \<Rightarrow> js_error + string" where
  "read_urlPath x = (case x of None \<Rightarrow> Inl TypeError | Some t \<Rightarrow> Inr (urlPath t))"

text \<open>The tab bar's class: a component class, so it carries the framework's marker.\<close>

definition TabBarComponent :: js_value where
  "TabBarComponent =
     JFunction ''TabBarComponent'' [(component_marker, JObject [])] (Throws (Raised TypeError))"

text \<open>
  The array literal is evaluated left to right: the children, the two reads of
  \<open>tabs[0].urlPath\<close>. The function returns its result together with the store it leaves.
\<close>

definition generateRoutes :: "heap \<Rightarrow> ref \<Rightarrow> (js_error + data_value route list) \<times> heap" where
  "generateRoutes h tabs =
     (case generateChildrenRoutes h tabs of
        Inl e \<Rightarrow> (Inl e, h)
      | Inr cs \<Rightarrow>
          (case read_urlPath (array_index (h tabs) 0) of
             Inl e \<Rightarrow> (Inl e, h)
           | Inr p1 \<Rightarrow>
               (case read_urlPath (array_index (h tabs) 0) of
                  Inl e \<Rightarrow> (Inl e, h)
                | Inr p2 \<Rightarrow>
                    (Inr
                      [Route (Some ''tabs'') (Some TabBarComponent) None None None
                         (Some [(''tabs'', ArrayRef tabs)])
                         (Some (cs @
                           [Route (Some '''') None None
                              (Some (js_replace p1 ''/tabs/'' '''')) (Some ''full'') None None])),
                       Route (Some '''') None None (Some p2) (Some ''full'') None None],
                     h))))"

section \<open>The tab bar (tab-bar.component.ts)\<close>

text \<open>
  What the component can change: the store of arrays (a new array gets the next free
  reference), the console and the icon registry. The registration function \<open>addIcons\<close>
  belongs to the icon library; the model records the mapping of each call. A mapping from
  icon names to assets is a map on strings: an icon name is an ordinary property name
  (the accessor \<open>__proto__\<close> is left out).
\<close>

type_synonym icons = "string \<rightharpoonup> js_primitive"

record world =
  arrays :: heap
  next_ref :: ref
  console :: "string list"
  registered :: "icons list"

definition new_array :: "tab list \<Rightarrow> world \<Rightarrow> data_value \<times> world" where
  "new_array xs w =
     (ArrayRef (next_ref w),
      w\<lparr>arrays := (arrays w)(next_ref w := xs), next_ref := Suc (next_ref w)\<rparr>)"

definition console_warn :: "string \<Rightarrow> world \<Rightarrow> world" where
  "console_warn msg w = w\<lparr>console := console w @ [msg]\<rparr>"

definition addIcons :: "icons \<Rightarrow> world \<Rightarrow> world" where
  "addIcons m w = w\<lparr>registered := registered w @ [m]\<rparr>"

text \<open>
  The component: its \<open>tabs\<close> field, declared an array of descriptors and assigned from the
  untyped route data, and the \<open>data\<close> of the route snapshot it was activated with.
\<close>

record tab_bar_component =
  tabs :: data_value
  snapshot_data :: "(string \<times> data_value) list"

text \<open>\<open>data[key]\<close>: \<open>undefined\<close> when the key is absent.\<close>

definition read_data :: "(string \<times> data_value) list \<Rightarrow> string \<Rightarrow> data_value" where
  "read_data d k = (case map_of d k of None \<Rightarrow> Prim JUndefined | Some v \<Rightarrow> v)"

text \<open>An array is an object, hence truthy, also when it is empty.\<close>

fun truthy_value :: "data_value \<Rightarrow> bool" where
  "truthy_value (ArrayRef a) = True"
| "truthy_value (Prim p) = truthy p"

text \<open>
  \<open>allIcons[key]\<close>: the icon catalog is a module of the icon library, each export an SVG
  string; a name it does not export reads as \<open>undefined\<close>. The catalog and the case
  conversion \<open>camelCase\<close> are external, and parameters of the functions below.
\<close>

definition read_icon :: "(string \<rightharpoonup> string) \<Rightarrow> string \<Rightarrow> js_primitive" where
  "read_icon allIcons k = (case allIcons k of None \<Rightarrow> JUndefined | Some svg \<Rightarrow> JString svg)"

text \<open>The callback of \<open>reduce\<close>, on the accumulator and the world.\<close>

definition collect_icon ::
  "(string \<Rightarrow> string) \<Rightarrow> (string \<rightharpoonup> string) \<Rightarrow> tab \<Rightarrow> icons \<times> world \<Rightarrow> icons \<times> world" where
  "collect_icon camelCase allIcons tab s =
     (case s of (acc, w) \<Rightarrow>
        (let camelCaseName = camelCase (iconName tab) in
         if truthy (read_icon allIcons camelCaseName)
         then (acc(iconName tab \<mapsto> read_icon allIcons camelCaseName), w)
         else (acc, console_warn (''Icon not found: '' @ iconName tab) w)))"

text \<open>
  \<open>this.tabs.reduce(...)\<close> runs over the array from left to right, starting from the empty
  object; a primitive has no \<open>reduce\<close> method, so the call is a \<open>TypeError\<close>.
\<close>

definition initializeRequiredIcons ::
  "(string \<Rightarrow> string) \<Rightarrow> (string \<rightharpoonup> string) \<Rightarrow> tab_bar_component \<times> world
     \<Rightarrow> (js_error + unit) \<times> tab_bar_component \<times> world" where
  "initializeRequiredIcons camelCase allIcons s =
     (case s of (c, w) \<Rightarrow>
        (case tabs c of
           Prim p \<Rightarrow> (Inl TypeError, c, w)
         | ArrayRef a \<Rightarrow>
             (case fold (collect_icon camelCase allIcons) (arrays w a) (Map.empty, w) of
                (requiredIcons, w') \<Rightarrow> (Inr (), c, addIcons requiredIcons w'))))"

text \<open>\<open>this.tabs = this.route.snapshot.data['tabs'] || []\<close>, then the icons.\<close>

definition ngOnInit ::
  "(string \<Rightarrow> string) \<Rightarrow> (string \<rightharpoonup> string) \<Rightarrow> tab_bar_component \<times> world
     \<Rightarrow> (js_error + unit) \<times> tab_bar_component \<times> world" where
  "ngOnInit camelCase allIcons s =
     (case s of (c, w) \<Rightarrow>
        (let v = read_data (snapshot_data c) ''tabs'' in
         case (if truthy_value v then (v, w) else new_array [] w) of
           (v', w') \<Rightarrow> initializeRequiredIcons camelCase allIcons (c\<lparr>tabs := v'\<rparr>, w')))"

section \<open>Reading a route table by value\<close>

text \<open>
  What a value under \<open>data\<close> stands for in a given store: the contents of the array it
  refers to, or the primitive itself. Two route tables are structurally identical when
  they are equal after every \<open>data\<close> value is replaced by what it stands for.
\<close>

definition contents :: "heap \<Rightarrow> data_value \<Rightarrow> tab list + js_primitive" where
  "contents h v = (case v of ArrayRef a \<Rightarrow> Inl (h a) | Prim p \<Rightarrow> Inr p)"

section \<open>Sample inputs\<close>

text \<open>
  The configurations of the documentation: two view classes as the framework compiles
  them, that is, functions that carry the framework's marker and throw when called
  without \<open>new\<close>, a loader that resolves to a module with a default export and one that
  resolves to the class itself, the two-tab
  list of the README, a list whose descriptors share name and path, and, for the icons,
  the case conversion and the catalog restricted to the names used here.
\<close>

definition HomePage :: js_value where
  "HomePage = JFunction ''HomePage'' [(component_marker, JObject [])] (Throws (Raised TypeError))"

definition SettingsPage :: js_value where
  "SettingsPage = JFunction ''SettingsPage'' [(component_marker, JObject [])] (Throws (Raised TypeError))"

definition load_settings_module :: js_value where
  "load_settings_module =
     JFunction ''loadSettings'' [] (Returns (Fulfilled (JObject [(''default'', SettingsPage)])))"

definition load_settings_page :: js_value where
  "load_settings_page = JFunction ''loadSettingsPage'' [] (Returns (Fulfilled SettingsPage))"

definition APP_TABS :: "tab list" where
  "APP_TABS =
     [\<lparr>name = ''home'', label = ''Home'', iconName = ''home-outline'',
        urlPath = ''/tabs/home'', component = HomePage\<rparr>,
      \<lparr>name = ''settings'', label = ''Settings'', iconName = ''settings-outline'',
        urlPath = ''/tabs/settings'', component = load_settings_module\<rparr>]"

definition TWIN_TABS :: "tab list" where
  "TWIN_TABS =
     [\<lparr>name = ''home'', label = ''Home'', iconName = ''home-outline'',
        urlPath = ''/tabs/home'', component = HomePage\<rparr>,
      \<lparr>name = ''home'', label = ''Home again'', iconName = ''home-outline'',
        urlPath = ''/tabs/home'', component = load_settings_page\<rparr>]"

definition sample_heap :: heap where
  "sample_heap = (\<lambda>_. [])(0 := APP_TABS, 5 := APP_TABS, 7 := TWIN_TABS)"

definition camelCase_sample :: "string \<Rightarrow> string" where
  "camelCase_sample s =
     (case map_of
        [(''home-outline'', ''homeOutline''),
         (''settings-outline'', ''settingsOutline''),
         (''not-a-real-icon'', ''notARealIcon'')] s
      of Some r \<Rightarrow> r | None \<Rightarrow> s)"

definition icons_sample :: "string \<rightharpoonup> string" where
  "icons_sample = [''homeOutline'' \<mapsto> ''<svg home/>'', ''settingsOutline'' \<mapsto> ''<svg settings/>'']"

definition ICON_TABS :: "tab list" where
  "ICON_TABS =
     [\<lparr>name = ''home'', label = ''Home'', iconName = ''home-outline'',
        urlPath = ''/tabs/home'', component = HomePage\<rparr>,
      \<lparr>name = ''missing'', label = ''Missing'', iconName = ''not-a-real-icon'',
        urlPath = ''/tabs/missing'', component = HomePage\<rparr>,
      \<lparr>name = ''start'', label = ''Start'', iconName = ''homeOutline'',
        urlPath = ''/tabs/start'', component = HomePage\<rparr>]"

text \<open>
  A world with the icon sample at reference 0, and the tab bar in three states: as
  constructed (its field holds the empty array at reference 1) with a given route data,
  and after an activation that found the array at reference 0.
\<close>

definition sample_world :: world where
  "sample_world =
     \<lparr>arrays = (\<lambda>_. [])(0 := ICON_TABS), next_ref = 2, console = [], registered = []\<rparr>"

definition new_bar :: "(string \<times> data_value) list \<Rightarrow> tab_bar_component" where
  "new_bar d = \<lparr>tabs = ArrayRef 1, snapshot_data = d\<rparr>"

definition active_bar :: tab_bar_component where
  "active_bar = \<lparr>tabs = ArrayRef 0, snapshot_data = [(''tabs'', ArrayRef 0)]\<rparr>"

section \<open>Replacing the leftmost occurrence\<close>

lemma js_replace_absent: "\<not> sublist pat s \<Longrightarrow> js_replace s pat rep = s"
proof (induction s)
  case Nil
  then show ?case by auto
next
  case (Cons c cs)
  from Cons.prems have np: "\<not> prefix pat (c # cs)"
    using prefix_imp_sublist by blast
  from Cons.prems have "\<not> sublist pat cs"
    by (auto simp: sublist_Cons_right)
  with Cons.IH np show ?case by simp
qed

lemma prefix_shorter:
  assumes "prefix pat (xs @ ys)" and "length pat \<le> length xs"
  shows "prefix pat xs"
  using assms
  by (metis prefix_append prefix_length_le prefix_order.eq_iff append_eq_append_conv_if
      prefix_def append_prefixD)

lemma js_replace_first:
  assumes "\<not> sublist pat (pre @ butlast pat)"
  shows "js_replace (pre @ pat @ post) pat rep = pre @ rep @ post"
  using assms
proof (induction pre)
  case Nil
  then have ne: "pat \<noteq> []" by auto
  then obtain c cs where eq: "pat @ post = c # cs" by (cases pat) auto
  have "js_replace (c # cs) pat rep = rep @ drop (length pat) (c # cs)"
    using eq by (metis js_replace.simps(2) prefixI)
  then show ?case using eq by (metis append_Nil append_eq_conv_conj)
next
  case (Cons c pre)
  then have ne: "pat \<noteq> []" by auto
  have len: "length pat \<le> length ((c # pre) @ butlast pat)" using ne by (cases pat) auto
  have split: "(c # pre) @ pat @ post = ((c # pre) @ butlast pat) @ (last pat # post)"
    using ne by simp
  have np: "\<not> prefix pat ((c # pre) @ pat @ post)"
  proof
    assume "prefix pat ((c # pre) @ pat @ post)"
    then have "prefix pat ((c # pre) @ butlast pat)"
      using prefix_shorter len split by metis
    then show False using Cons.prems prefix_imp_sublist by blast
  qed
  have "\<not> sublist pat (pre @ butlast pat)"
    using Cons.prems by (auto simp: sublist_Cons_right)
  then have "js_replace (pre @ pat @ post) pat rep = pre @ rep @ post" by (rule Cons.IH)
  with np show ?case by simp
qed

lemma strip_tabs_prefix: "js_replace (''/tabs/'' @ rest) ''/tabs/'' '''' = rest"
  by simp

text \<open>
  C5 (as amended). The step \<open>urlPath.replace('/tabs/', '')\<close> removes the leftmost occurrence
  of \<open>/tabs/\<close>, wherever in the path it starts, and nothing else: what follows that
  occurrence is kept as it is, later occurrences included. A path in which \<open>/tabs/\<close> does
  not occur is unchanged. In the statement the path is \<open>pre\<close>, \<open>/tabs/\<close>, \<open>post\<close>, and
  that occurrence is the leftmost one when none starts within \<open>pre\<close>, that is, when
  \<open>/tabs/\<close> does not occur in \<open>pre\<close> followed by \<open>/tabs\<close>.
\<close>

theorem strip_removes_leftmost_occurrence_only:
  "(\<not> sublist ''/tabs/'' (pre @ ''/tabs'') \<longrightarrow>
      js_replace (pre @ ''/tabs/'' @ post) ''/tabs/'' '''' = pre @ post)
   \<and> (\<not> sublist ''/tabs/'' s \<longrightarrow> js_replace s ''/tabs/'' '''' = s)"
proof (intro conjI impI)
  assume "\<not> sublist ''/tabs/'' (pre @ ''/tabs'')"
  then have "\<not> sublist ''/tabs/'' (pre @ butlast ''/tabs/'')" by simp
  then have "js_replace (pre @ ''/tabs/'' @ post) ''/tabs/'' '''' = pre @ '''' @ post"
    by (rule js_replace_first)
  then show "js_replace (pre @ ''/tabs/'' @ post) ''/tabs/'' '''' = pre @ post" by simp
next
  assume "\<not> sublist ''/tabs/'' s"
  then show "js_replace s ''/tabs/'' '''' = s" by (rule js_replace_absent)
qed

theorem strip_removes_leftmost_occurrence_only_witness:
  "\<not> sublist ''/tabs/'' (''/app'' @ ''/tabs'')
   \<and> js_replace (''/app'' @ ''/tabs/'' @ ''a/tabs/b'') ''/tabs/'' '''' = ''/app'' @ ''a/tabs/b''
   \<and> \<not> sublist ''/tabs/'' ''home''
   \<and> js_replace ''home'' ''/tabs/'' '''' = ''home''"
proof -
  have h1: "\<not> sublist ''/tabs/'' (''/app'' @ ''/tabs'')" by code_simp
  have h2: "\<not> sublist ''/tabs/'' ''home''" by code_simp
  from strip_removes_leftmost_occurrence_only [of "''/app''" "''a/tabs/b''" "''home''"] h1 h2
  show ?thesis by blast
qed

text \<open>
  C5 (as stated) fails: of the two occurrences in \<open>/tabs/a/tabs/b\<close> only the first is
  removed, so the result is \<open>a/tabs/b\<close> and not \<open>ab\<close>.
\<close>

theorem strip_both_occurrences_counterexample:
  "js_replace ''/tabs/a/tabs/b'' ''/tabs/'' '''' = ''a/tabs/b''
   \<and> js_replace ''/tabs/a/tabs/b'' ''/tabs/'' '''' \<noteq> ''ab''"
  by simp

section \<open>Route generation\<close>

lemma isLazyComponent_eq:
  "isLazyComponent c =
     Inr (case c of JFunction f ps b \<Rightarrow> tested_key \<notin> fst ` set ps | _ \<Rightarrow> False)"
proof (cases c)
  case (Primitive p)
  then show ?thesis by (cases p) (simp_all add: isLazyComponent_def)
qed (simp_all add: isLazyComponent_def)

lemma createComponentRoute_eq:
  "createComponentRoute c =
     Inr (if isLazyComponent c = Inr True
          then Route None None (Some (LoadComponent c)) None None None None
          else Route None (Some c) None None None None None)"
  using isLazyComponent_eq [of c]
  by (simp add: createComponentRoute_def split: bool.splits)

lemma array_map_total: "(\<And>x. f x = Inr (g x)) \<Longrightarrow> array_map f xs = Inr (map g xs)"
  by (induction xs) simp_all

lemma generateChildrenRoutes_eq:
  "generateChildrenRoutes h a =
     Inr (map (\<lambda>d. Route (Some (js_replace (urlPath d) ''/tabs/'' ''''))
                  (if isLazyComponent (component d) = Inr True then None else Some (component d))
                  (if isLazyComponent (component d) = Inr True
                   then Some (LoadComponent (component d)) else None)
                  None None None None)
            (h a))"
  unfolding generateChildrenRoutes_def
  by (rule array_map_total) (simp add: createComponentRoute_eq spread_def override_def)

lemma generateRoutes_nonempty:
  assumes "h a = d # ds"
  shows "generateRoutes h a =
     (Inr [Route (Some ''tabs'') (Some TabBarComponent) None None None
             (Some [(''tabs'', ArrayRef a)])
             (Some (map (\<lambda>d. Route (Some (js_replace (urlPath d) ''/tabs/'' ''''))
                  (if isLazyComponent (component d) = Inr True then None else Some (component d))
                  (if isLazyComponent (component d) = Inr True
                   then Some (LoadComponent (component d)) else None)
                  None None None None) (h a) @
                [Route (Some '''') None None
                   (Some (js_replace (urlPath d) ''/tabs/'' '''')) (Some ''full'') None None])),
           Route (Some '''') None None (Some (urlPath d)) (Some ''full'') None None],
      h)"
  using assms
  by (simp add: generateRoutes_def generateChildrenRoutes_eq array_index_def read_urlPath_def)

lemma generateRoutes_empty:
  assumes "h a = []"
  shows "generateRoutes h a = (Inl TypeError, h)"
  using assms
  by (simp add: generateRoutes_def generateChildrenRoutes_def array_index_def read_urlPath_def)

text \<open>
  C1. For a non-empty array \<open>D\<close> of descriptors, the children of the parent \<open>tabs\<close> route
  are one entry per descriptor, \<open>length D\<close> of them and in the order of \<open>D\<close>, followed
  by the redirect entry. The entry of a descriptor has the path
  \<open>urlPath.replace('/tabs/', '')\<close>, which for a \<open>urlPath\<close> of the form \<open>/tabs/rest\<close> is
  \<open>rest\<close>, and the binding of its component. Nothing is required of the names or paths:
  descriptors with equal \<open>name\<close> or \<open>urlPath\<close> each get their entry.
\<close>

theorem generateRoutes_children_in_order:
  assumes "h a = D" and "D \<noteq> []"
  shows "\<exists>cs redirect root.
     fst (generateRoutes h a) =
       Inr [Route (Some ''tabs'') (Some TabBarComponent) None None None
              (Some [(''tabs'', ArrayRef a)]) (Some (cs @ [redirect])), root]
     \<and> length cs = length D
     \<and> cs = map (\<lambda>d. Route (Some (js_replace (urlPath d) ''/tabs/'' ''''))
                  (if isLazyComponent (component d) = Inr True then None else Some (component d))
                  (if isLazyComponent (component d) = Inr True
                   then Some (LoadComponent (component d)) else None)
                  None None None None) D
     \<and> (\<forall>d \<in> set D. \<forall>rest. urlPath d = ''/tabs/'' @ rest \<longrightarrow>
           js_replace (urlPath d) ''/tabs/'' '''' = rest)"
proof -
  let ?child = "\<lambda>d. Route (Some (js_replace (urlPath d) ''/tabs/'' ''''))
                  (if isLazyComponent (component d) = Inr True then None else Some (component d))
                  (if isLazyComponent (component d) = Inr True
                   then Some (LoadComponent (component d)) else None)
                  None None None None :: data_value route"
  from assms obtain d ds where "h a = d # ds" by (cases D) auto
  then have "fst (generateRoutes h a) =
       Inr [Route (Some ''tabs'') (Some TabBarComponent) None None None
              (Some [(''tabs'', ArrayRef a)])
              (Some (map ?child (h a) @
                [Route (Some '''') None None
                   (Some (js_replace (urlPath d) ''/tabs/'' '''')) (Some ''full'') None None])),
            Route (Some '''') None None (Some (urlPath d)) (Some ''full'') None None]"
    by (simp only: generateRoutes_nonempty fst_conv)
  then have "\<exists>redirect root. fst (generateRoutes h a) =
       Inr [Route (Some ''tabs'') (Some TabBarComponent) None None None
              (Some [(''tabs'', ArrayRef a)]) (Some (map ?child D @ [redirect])), root]"
    unfolding assms(1) by blast
  moreover have "\<forall>d \<in> set D. \<forall>rest. urlPath d = ''/tabs/'' @ rest \<longrightarrow>
           js_replace (urlPath d) ''/tabs/'' '''' = rest"
    by (intro ballI allI impI) (simp only: strip_tabs_prefix)
  moreover have "length (map ?child D) = length D" by simp
  ultimately show ?thesis by blast
qed

text \<open>The two descriptors of the sample share name and path; each has its entry.\<close>

theorem generateRoutes_children_in_order_witness:
  "sample_heap 7 = TWIN_TABS \<and> TWIN_TABS \<noteq> []
   \<and> (\<exists>redirect root.
        fst (generateRoutes sample_heap 7) =
          Inr [Route (Some ''tabs'') (Some TabBarComponent) None None None
                 (Some [(''tabs'', ArrayRef 7)])
                 (Some ([Route (Some ''home'') None (Some (LoadComponent HomePage))
                           None None None None,
                         Route (Some ''home'') None (Some (LoadComponent load_settings_page))
                           None None None None] @ [redirect])),
               root])"
  using generateRoutes_children_in_order [of sample_heap 7 TWIN_TABS]
  by (simp add: sample_heap_def TWIN_TABS_def isLazyComponent_def HomePage_def
      load_settings_page_def tested_key_def component_marker_def)

text \<open>
  C2. For a non-empty array \<open>D\<close>, the last child of the parent route is the entry with
  path \<open>''\<close> and \<open>pathMatch: 'full'\<close> that redirects to the first descriptor's \<open>urlPath\<close>
  after \<open>replace('/tabs/', '')\<close> (for \<open>/tabs/rest\<close>, to \<open>rest\<close>), and the second route of the
  table is the entry with path \<open>''\<close> and \<open>pathMatch: 'full'\<close> that redirects to the first
  descriptor's \<open>urlPath\<close> as it is.
\<close>

theorem generateRoutes_redirects_to_first:
  assumes "h a = D" and "D \<noteq> []"
  shows "\<exists>cs.
     fst (generateRoutes h a) =
       Inr [Route (Some ''tabs'') (Some TabBarComponent) None None None
              (Some [(''tabs'', ArrayRef a)])
              (Some (cs @
                 [Route (Some '''') None None
                    (Some (js_replace (urlPath (D ! 0)) ''/tabs/'' '''')) (Some ''full'')
                    None None])),
            Route (Some '''') None None (Some (urlPath (D ! 0))) (Some ''full'') None None]
     \<and> length cs = length D
     \<and> (\<forall>rest. urlPath (D ! 0) = ''/tabs/'' @ rest \<longrightarrow>
           js_replace (urlPath (D ! 0)) ''/tabs/'' '''' = rest)"
proof -
  from assms obtain d ds where D: "D = d # ds" by (cases D) auto
  with assms have "h a = d # ds" by simp
  note g = generateRoutes_nonempty [of h a d ds, OF this]
  have "\<forall>rest. urlPath d = ''/tabs/'' @ rest \<longrightarrow> js_replace (urlPath d) ''/tabs/'' '''' = rest"
    by (intro allI impI) (simp only: strip_tabs_prefix)
  with g assms(1) D show ?thesis
    by (simp del: js_replace.simps)
qed

theorem generateRoutes_redirects_to_first_witness:
  "sample_heap 0 = APP_TABS \<and> APP_TABS \<noteq> []
   \<and> (\<exists>cs.
     fst (generateRoutes sample_heap 0) =
       Inr [Route (Some ''tabs'') (Some TabBarComponent) None None None
              (Some [(''tabs'', ArrayRef 0)])
              (Some (cs @
                 [Route (Some '''') None None (Some ''home'') (Some ''full'') None None])),
            Route (Some '''') None None (Some ''/tabs/home'') (Some ''full'') None None]
     \<and> length cs = length APP_TABS)"
  using generateRoutes_redirects_to_first [of sample_heap 0 APP_TABS]
  by (simp add: sample_heap_def APP_TABS_def)

text \<open>
  C7. On a non-empty array the read of element zero, the only indexed read, is in bounds
  and \<open>generateRoutes\<close> returns a route table. On the empty array element zero is
  \<open>undefined\<close>, and reading its \<open>urlPath\<close> ends the call with a \<open>TypeError\<close>.
\<close>

theorem generateRoutes_total_on_nonempty:
  "(h a \<noteq> [] \<longrightarrow>
      array_index (h a) 0 = Some (h a ! 0) \<and> (\<exists>r. generateRoutes h a = (Inr r, h)))
   \<and> (h a = [] \<longrightarrow>
      array_index (h a) 0 = None \<and> generateRoutes h a = (Inl TypeError, h))"
proof (intro conjI impI)
  assume ne: "h a \<noteq> []"
  then show "array_index (h a) 0 = Some (h a ! 0)" by (simp add: array_index_def)
  from ne obtain d ds where "h a = d # ds" by (cases "h a") auto
  from generateRoutes_nonempty [of h a d ds, OF this]
  show "\<exists>r. generateRoutes h a = (Inr r, h)" by blast
next
  assume e: "h a = []"
  then show "array_index (h a) 0 = None" by (simp add: array_index_def)
  from e show "generateRoutes h a = (Inl TypeError, h)" by (rule generateRoutes_empty)
qed

theorem generateRoutes_total_on_nonempty_witness:
  "sample_heap 0 \<noteq> []
   \<and> (\<exists>r. generateRoutes sample_heap 0 = (Inr r, sample_heap))
   \<and> sample_heap 1 = []
   \<and> generateRoutes sample_heap 1 = (Inl TypeError, sample_heap)"
  using generateRoutes_total_on_nonempty [of sample_heap 0]
    generateRoutes_total_on_nonempty [of sample_heap 1]
  by (simp add: sample_heap_def APP_TABS_def)

text \<open>
  C6. A call of \<open>generateRoutes\<close> on a non-empty array leaves the store as it found it: no
  array is changed, the argument included, which the parent route's \<open>data.tabs\<close> holds by
  reference. A second call, on an array with the same contents (the same array or
  another one), returns a route table that is structurally identical to the first.
\<close>

theorem generateRoutes_pure:
  assumes "h a1 = h a2" and "h a1 \<noteq> []"
  shows "\<exists>r1 r2.
     generateRoutes h a1 = (Inr r1, h)
     \<and> generateRoutes (snd (generateRoutes h a1)) a2 = (Inr r2, h)
     \<and> map (map_route (contents h)) r1 = map (map_route (contents h)) r2
     \<and> data (hd r1) = Some [(''tabs'', ArrayRef a1)]"
proof -
  from assms(2) obtain d ds where 1: "h a1 = d # ds" by (cases "h a1") auto
  with assms(1) have 2: "h a2 = d # ds" by simp
  note g1 = generateRoutes_nonempty [of h a1 d ds, OF 1]
    and g2 = generateRoutes_nonempty [of h a2 d ds, OF 2]
  show ?thesis
    unfolding g1 snd_conv unfolding g2
    by (simp add: contents_def 1 2 del: js_replace.simps)
qed

theorem generateRoutes_pure_witness:
  "sample_heap 0 = sample_heap 5 \<and> sample_heap 0 \<noteq> []
   \<and> (\<exists>r1 r2.
     generateRoutes sample_heap 0 = (Inr r1, sample_heap)
     \<and> generateRoutes (snd (generateRoutes sample_heap 0)) 5 = (Inr r2, sample_heap)
     \<and> map (map_route (contents sample_heap)) r1 = map (map_route (contents sample_heap)) r2
     \<and> data (hd r1) = Some [(''tabs'', ArrayRef 0)])"
proof -
  have "sample_heap 0 = sample_heap 5" and "sample_heap 0 \<noteq> []"
    by (simp_all add: sample_heap_def APP_TABS_def)
  with generateRoutes_pure [of sample_heap 0 5] show ?thesis by blast
qed

section \<open>View resolution\<close>

text \<open>
  C3 does not hold of the code. A view class is a function that carries the framework's
  marker, and the documentation of \<open>isLazyComponent\<close> says that it is not lazy
  (\<open>isLazyComponent(HomePage) // false\<close>), so that its route is \<open>{ component }\<close>. The key
  that the function looks for is not that marker, and a class compiled by the framework
  does not have it: the sample class is classified as lazy, its route is the loader
  closure with no \<open>component\<close>, and calling the closure throws, since a class cannot be
  called without \<open>new\<close>.
\<close>

theorem createComponentRoute_view_class_is_lazy:
  "typeof HomePage = ''function''
   \<and> js_in component_marker HomePage = Inr True
   \<and> js_in tested_key HomePage = Inr False
   \<and> isLazyComponent HomePage = Inr True
   \<and> createComponentRoute HomePage =
       Inr (Route None None (Some (LoadComponent HomePage)) None None None None
            :: data_value route)
   \<and> invoke (LoadComponent HomePage) = Throws (Raised TypeError)"
  by (simp add: HomePage_def createComponentRoute_def isLazyComponent_def tested_key_def
      component_marker_def)

lemma invoke_fulfilled:
  "invoke (LoadComponent (JFunction f ps (Returns (Fulfilled loaded)))) =
     Returns (case unwrap_default loaded of
                Inl e \<Rightarrow> Rejected (Raised e) | Inr v \<Rightarrow> Fulfilled v)"
  by simp

text \<open>
  C4. Let the reference be a loader (a function without the marker) whose promise is
  fulfilled with \<open>loaded\<close>. The route made for it has the loader closure, and calling the
  closure returns a promise that is fulfilled with the value under \<open>default\<close> when
  \<open>loaded\<close> is an object with a \<open>default\<close> property, and with \<open>loaded\<close> itself when it is
  a view class without a \<open>default\<close> property.
\<close>

theorem loadComponent_unwraps_default:
  assumes "c = JFunction f ps (Returns (Fulfilled loaded))" and "tested_key \<notin> fst ` set ps"
  shows "createComponentRoute c =
       Inr (Route None None (Some (LoadComponent c)) None None None None :: data_value route)
     \<and> (\<forall>qs v. loaded = JObject qs \<and> map_of qs ''default'' = Some v \<longrightarrow>
          invoke (LoadComponent c) = Returns (Fulfilled v))
     \<and> (\<forall>g qs b. loaded = JFunction g qs b \<and> ''default'' \<notin> fst ` set qs \<longrightarrow>
          invoke (LoadComponent c) = Returns (Fulfilled loaded))"
proof (intro conjI allI impI)
  from assms have "isLazyComponent c = Inr True"
    by (simp add: isLazyComponent_eq)
  then show "createComponentRoute c =
       Inr (Route None None (Some (LoadComponent c)) None None None None :: data_value route)"
    by (simp add: createComponentRoute_eq)
next
  fix qs v
  assume l: "loaded = JObject qs \<and> map_of qs ''default'' = Some v"
  then have "''default'' \<in> fst ` set qs" by (auto dest: map_of_SomeD intro: rev_image_eqI)
  with l have "unwrap_default loaded = Inr v"
    by (simp add: unwrap_default_def lookup_property_def)
  with assms(1) show "invoke (LoadComponent c) = Returns (Fulfilled v)"
    by (simp only: invoke_fulfilled sum.case)
next
  fix g qs b
  assume l: "loaded = JFunction g qs b \<and> ''default'' \<notin> fst ` set qs"
  then have "unwrap_default loaded = Inr loaded"
    by (simp add: unwrap_default_def)
  with assms(1) show "invoke (LoadComponent c) = Returns (Fulfilled loaded)"
    by (simp only: invoke_fulfilled sum.case)
qed

theorem loadComponent_unwraps_default_witness:
  "load_settings_module =
     JFunction ''loadSettings'' [] (Returns (Fulfilled (JObject [(''default'', SettingsPage)])))
   \<and> tested_key \<notin> fst ` set []
   \<and> map_of [(''default'', SettingsPage)] ''default'' = Some SettingsPage
   \<and> invoke (LoadComponent load_settings_module) = Returns (Fulfilled SettingsPage)
   \<and> load_settings_page =
     JFunction ''loadSettingsPage'' []
       (Returns (Fulfilled (JFunction ''SettingsPage'' [(component_marker, JObject [])]
          (Throws (Raised TypeError)))))
   \<and> ''default'' \<notin> fst ` set [(component_marker, JObject [])]
   \<and> invoke (LoadComponent load_settings_page) = Returns (Fulfilled SettingsPage)"
  using loadComponent_unwraps_default
      [of load_settings_module "''loadSettings''" "[]" "JObject [(''default'', SettingsPage)]"]
    loadComponent_unwraps_default
      [of load_settings_page "''loadSettingsPage''" "[]" SettingsPage]
  by (simp add: load_settings_module_def load_settings_page_def SettingsPage_def tested_key_def component_marker_def)

section \<open>The tab bar's icons and activation\<close>

lemma fold_collect_icon:
  "fold (collect_icon cc cat) D (acc, w) =
     ((\<lambda>k. if \<exists>t \<in> set D. iconName t = k \<and> truthy (read_icon cat (cc k))
            then Some (read_icon cat (cc k)) else acc k),
      w\<lparr>console := console w @
           map (\<lambda>t. ''Icon not found: '' @ iconName t)
             (filter (\<lambda>t. \<not> truthy (read_icon cat (cc (iconName t)))) D)\<rparr>)"
proof (induction D arbitrary: acc w)
  case Nil
  show ?case by simp
next
  case (Cons t D)
  show ?case
  proof (cases "truthy (read_icon cat (cc (iconName t)))")
    case True
    then have step: "collect_icon cc cat t (acc, w)
        = (acc(iconName t \<mapsto> read_icon cat (cc (iconName t))), w)"
      by (simp add: collect_icon_def)
    show ?thesis
      unfolding fold_simps step Cons.IH
      using True by (auto intro!: ext)
  next
    case False
    then have step: "collect_icon cc cat t (acc, w)
        = (acc, console_warn (''Icon not found: '' @ iconName t) w)"
      by (simp add: collect_icon_def)
    show ?thesis
      unfolding fold_simps step Cons.IH
      using False by (auto simp: console_warn_def intro!: ext)
  qed
qed

lemma initializeRequiredIcons_eq:
  assumes "tabs c = ArrayRef a"
  shows "initializeRequiredIcons cc cat (c, w) =
     (Inr (), c,
      w\<lparr>console := console w @
           map (\<lambda>t. ''Icon not found: '' @ iconName t)
             (filter (\<lambda>t. \<not> truthy (read_icon cat (cc (iconName t)))) (arrays w a)),
        registered := registered w @
           [\<lambda>k. if \<exists>t \<in> set (arrays w a). iconName t = k \<and> truthy (read_icon cat (cc k))
                then Some (read_icon cat (cc k)) else None]\<rparr>)"
  using assms
  by (simp add: initializeRequiredIcons_def fold_collect_icon addIcons_def)

lemma ngOnInit_truthy:
  assumes "truthy_value (read_data (snapshot_data c) ''tabs'')"
  shows "ngOnInit cc cat (c, w) =
     initializeRequiredIcons cc cat (c\<lparr>tabs := read_data (snapshot_data c) ''tabs''\<rparr>, w)"
  using assms by (simp add: ngOnInit_def)

lemma ngOnInit_falsy:
  assumes "\<not> truthy_value (read_data (snapshot_data c) ''tabs'')"
  shows "ngOnInit cc cat (c, w) =
     (Inr (), c\<lparr>tabs := ArrayRef (next_ref w)\<rparr>,
      w\<lparr>arrays := (arrays w)(next_ref w := []), next_ref := Suc (next_ref w),
        registered := registered w @ [Map.empty]\<rparr>)"
  using assms
  by (simp add: ngOnInit_def new_array_def initializeRequiredIcons_eq)

lemma initializeRequiredIcons_tabs:
  "tabs (fst (snd (initializeRequiredIcons cc cat (c, w)))) = tabs c"
  by (simp add: initializeRequiredIcons_def split: data_value.splits prod.splits)

text \<open>
  C8. \<open>ngOnInit\<close> sets the component's \<open>tabs\<close> to the value under the key \<open>tabs\<close> of the
  snapshot's data whenever that value is truthy; when it is an array, the call ends
  without an exception and leaves the arrays as they were. When the value is falsy, as
  it is when the key is absent, \<open>tabs\<close> is set to a new, empty array and the call ends
  without an exception and without a warning.
\<close>

theorem ngOnInit_reads_tabs_or_defaults:
  "(\<forall>a. read_data (snapshot_data c) ''tabs'' = ArrayRef a \<longrightarrow>
       (\<exists>w'. ngOnInit cc cat (c, w) = (Inr (), c\<lparr>tabs := ArrayRef a\<rparr>, w')
          \<and> arrays w' = arrays w))
   \<and> (truthy_value (read_data (snapshot_data c) ''tabs'') \<longrightarrow>
       tabs (fst (snd (ngOnInit cc cat (c, w)))) = read_data (snapshot_data c) ''tabs'')
   \<and> (\<not> truthy_value (read_data (snapshot_data c) ''tabs'') \<longrightarrow>
       (\<exists>w'. ngOnInit cc cat (c, w) = (Inr (), c\<lparr>tabs := ArrayRef (next_ref w)\<rparr>, w')
          \<and> arrays w' (next_ref w) = [] \<and> console w' = console w))
   \<and> (map_of (snapshot_data c) ''tabs'' = None \<longrightarrow>
       \<not> truthy_value (read_data (snapshot_data c) ''tabs''))"
proof (intro conjI allI impI)
  fix a
  assume r: "read_data (snapshot_data c) ''tabs'' = ArrayRef a"
  then have "ngOnInit cc cat (c, w) = initializeRequiredIcons cc cat (c\<lparr>tabs := ArrayRef a\<rparr>, w)"
    using ngOnInit_truthy [of c cc cat w] by simp
  then show "\<exists>w'. ngOnInit cc cat (c, w) = (Inr (), c\<lparr>tabs := ArrayRef a\<rparr>, w')
      \<and> arrays w' = arrays w"
    by (simp add: initializeRequiredIcons_eq)
next
  assume "truthy_value (read_data (snapshot_data c) ''tabs'')"
  then show "tabs (fst (snd (ngOnInit cc cat (c, w)))) = read_data (snapshot_data c) ''tabs''"
    by (simp add: ngOnInit_truthy initializeRequiredIcons_tabs)
next
  assume "\<not> truthy_value (read_data (snapshot_data c) ''tabs'')"
  then show "\<exists>w'. ngOnInit cc cat (c, w) = (Inr (), c\<lparr>tabs := ArrayRef (next_ref w)\<rparr>, w')
      \<and> arrays w' (next_ref w) = [] \<and> console w' = console w"
    by (simp add: ngOnInit_falsy)
next
  assume "map_of (snapshot_data c) ''tabs'' = None"
  then show "\<not> truthy_value (read_data (snapshot_data c) ''tabs'')"
    by (simp add: read_data_def)
qed

text \<open>
  Three activations of a new tab bar: with the sample array under \<open>tabs\<close>, with no data,
  and with the empty string under \<open>tabs\<close>.
\<close>

theorem ngOnInit_reads_tabs_or_defaults_witness:
  "read_data (snapshot_data (new_bar [(''tabs'', ArrayRef 0)])) ''tabs'' = ArrayRef 0
   \<and> fst (ngOnInit camelCase_sample icons_sample (new_bar [(''tabs'', ArrayRef 0)], sample_world))
       = Inr ()
   \<and> tabs (fst (snd (ngOnInit camelCase_sample icons_sample
        (new_bar [(''tabs'', ArrayRef 0)], sample_world)))) = ArrayRef 0
   \<and> map_of (snapshot_data (new_bar [])) ''tabs'' = None
   \<and> fst (ngOnInit camelCase_sample icons_sample (new_bar [], sample_world)) = Inr ()
   \<and> tabs (fst (snd (ngOnInit camelCase_sample icons_sample (new_bar [], sample_world))))
       = ArrayRef 2
   \<and> arrays (snd (snd (ngOnInit camelCase_sample icons_sample (new_bar [], sample_world)))) 2 = []
   \<and> \<not> truthy_value (read_data (snapshot_data (new_bar [(''tabs'', Prim (JString ''''))])) ''tabs'')
   \<and> fst (ngOnInit camelCase_sample icons_sample
        (new_bar [(''tabs'', Prim (JString ''''))], sample_world)) = Inr ()
   \<and> tabs (fst (snd (ngOnInit camelCase_sample icons_sample
        (new_bar [(''tabs'', Prim (JString ''''))], sample_world)))) = ArrayRef 2"
  using ngOnInit_reads_tabs_or_defaults
      [of "new_bar [(''tabs'', ArrayRef 0)]" camelCase_sample icons_sample sample_world]
    ngOnInit_reads_tabs_or_defaults [of "new_bar []" camelCase_sample icons_sample sample_world]
    ngOnInit_reads_tabs_or_defaults
      [of "new_bar [(''tabs'', Prim (JString ''''))]" camelCase_sample icons_sample sample_world]
  by (auto simp add: new_bar_def sample_world_def read_data_def)

text \<open>
  C9. For every array of descriptors the icon initialization ends without an exception.
  It writes one warning, \<open>Icon not found:\<close> and the icon name, for each descriptor whose
  converted name reads as a falsy value in the catalog, in the order of the array, and
  calls the registration function once. The keys of the mapping registered are the icon
  names of the other descriptors. A descriptor whose converted name has no entry in the
  catalog is among those warned about and its icon name is not a key of the mapping; a
  descriptor whose converted name has an asset in the catalog has the entry of its icon
  name in the mapping, with that asset.
\<close>

theorem initializeRequiredIcons_never_raises:
  assumes "tabs c = ArrayRef a"
  shows "\<exists>m w'.
     initializeRequiredIcons cc cat (c, w) = (Inr (), c, w')
     \<and> arrays w' = arrays w
     \<and> console w' = console w @
          map (\<lambda>t. ''Icon not found: '' @ iconName t)
            (filter (\<lambda>t. \<not> truthy (read_icon cat (cc (iconName t)))) (arrays w a))
     \<and> registered w' = registered w @ [m]
     \<and> dom m = iconName ` {t \<in> set (arrays w a). truthy (read_icon cat (cc (iconName t)))}
     \<and> (\<forall>t \<in> set (arrays w a).
          (cat (cc (iconName t)) = None \<longrightarrow>
             \<not> truthy (read_icon cat (cc (iconName t))) \<and> m (iconName t) = None)
          \<and> (\<forall>svg. cat (cc (iconName t)) = Some svg \<and> svg \<noteq> [] \<longrightarrow>
             truthy (read_icon cat (cc (iconName t))) \<and> m (iconName t) = Some (JString svg)))"
proof -
  let ?m = "\<lambda>k. if \<exists>t \<in> set (arrays w a). iconName t = k \<and> truthy (read_icon cat (cc k))
                then Some (read_icon cat (cc k)) else None"
  let ?w' = "w\<lparr>console := console w @
           map (\<lambda>t. ''Icon not found: '' @ iconName t)
             (filter (\<lambda>t. \<not> truthy (read_icon cat (cc (iconName t)))) (arrays w a)),
        registered := registered w @ [?m]\<rparr>"
  have run: "initializeRequiredIcons cc cat (c, w) = (Inr (), c, ?w')"
    using assms by (rule initializeRequiredIcons_eq)
  have entries: "\<forall>t \<in> set (arrays w a).
          (cat (cc (iconName t)) = None \<longrightarrow>
             \<not> truthy (read_icon cat (cc (iconName t))) \<and> ?m (iconName t) = None)
          \<and> (\<forall>svg. cat (cc (iconName t)) = Some svg \<and> svg \<noteq> [] \<longrightarrow>
             truthy (read_icon cat (cc (iconName t))) \<and> ?m (iconName t) = Some (JString svg))"
    by (auto simp: read_icon_def)
  have "arrays ?w' = arrays w" by simp
  moreover have "console ?w' = console w @
          map (\<lambda>t. ''Icon not found: '' @ iconName t)
            (filter (\<lambda>t. \<not> truthy (read_icon cat (cc (iconName t)))) (arrays w a))" by simp
  moreover have "registered ?w' = registered w @ [?m]" by simp
  moreover have "dom ?m = iconName ` {t \<in> set (arrays w a). truthy (read_icon cat (cc (iconName t)))}"
    by (auto simp: dom_def)
  ultimately show ?thesis using run entries by blast
qed

theorem initializeRequiredIcons_never_raises_witness:
  "tabs (active_bar) = ArrayRef 0
   \<and> fst (initializeRequiredIcons camelCase_sample icons_sample (active_bar, sample_world))
       = Inr ()
   \<and> console (snd (snd (initializeRequiredIcons camelCase_sample icons_sample
        (active_bar, sample_world))))
       = [''Icon not found: not-a-real-icon'']
   \<and> length (registered (snd (snd (initializeRequiredIcons camelCase_sample icons_sample
        (active_bar, sample_world))))) = 1
   \<and> hd (registered (snd (snd (initializeRequiredIcons camelCase_sample icons_sample
        (active_bar, sample_world))))) ''home-outline'' = Some (JString ''<svg home/>'')
   \<and> hd (registered (snd (snd (initializeRequiredIcons camelCase_sample icons_sample
        (active_bar, sample_world))))) ''not-a-real-icon'' = None"
proof -
  have t: "tabs (active_bar) = ArrayRef 0" by (simp add: active_bar_def)
  from initializeRequiredIcons_never_raises
    [of "active_bar" 0 camelCase_sample icons_sample sample_world, OF t]
  obtain m w' where
    r: "initializeRequiredIcons camelCase_sample icons_sample (active_bar, sample_world)
          = (Inr (), active_bar, w')"
    and c: "console w' = console sample_world @
          map (\<lambda>t. ''Icon not found: '' @ iconName t)
            (filter (\<lambda>t. \<not> truthy (read_icon icons_sample (camelCase_sample (iconName t))))
               (arrays sample_world 0))"
    and g: "registered w' = registered sample_world @ [m]"
    and e: "\<forall>t \<in> set (arrays sample_world 0).
          (icons_sample (camelCase_sample (iconName t)) = None \<longrightarrow>
             \<not> truthy (read_icon icons_sample (camelCase_sample (iconName t)))
             \<and> m (iconName t) = None)
          \<and> (\<forall>svg. icons_sample (camelCase_sample (iconName t)) = Some svg \<and> svg \<noteq> [] \<longrightarrow>
             truthy (read_icon icons_sample (camelCase_sample (iconName t)))
             \<and> m (iconName t) = Some (JString svg))"
    by blast
  have "m ''home-outline'' = Some (JString ''<svg home/>'')"
    using e by (simp add: sample_world_def ICON_TABS_def camelCase_sample_def icons_sample_def)
  moreover have "m ''not-a-real-icon'' = None"
    using e by (simp add: sample_world_def ICON_TABS_def camelCase_sample_def icons_sample_def)
  moreover have "console w' = [''Icon not found: not-a-real-icon'']"
    using c
    by (simp add: sample_world_def ICON_TABS_def camelCase_sample_def icons_sample_def
        read_icon_def)
  ultimately show ?thesis using t r g by (simp add: sample_world_def)
qed

text \<open>
  C10 (as amended). Every key of the mapping registered is the \<open>iconName\<close>, as written, of
  a descriptor of the array, and its value is the asset that the catalog holds under the
  camelCase conversion of that key. So the converted name of a descriptor is a key of
  the mapping only if it is the \<open>iconName\<close>, as written, of a descriptor of the array: of
  that descriptor or of another one.
\<close>

theorem registered_icons_keyed_by_original_names:
  assumes "tabs c = ArrayRef a"
  shows "\<exists>m w'.
     initializeRequiredIcons cc cat (c, w) = (Inr (), c, w')
     \<and> registered w' = registered w @ [m]
     \<and> (\<forall>k v. m k = Some v \<longrightarrow>
          (\<exists>t \<in> set (arrays w a). iconName t = k)
          \<and> (\<exists>svg. cat (cc k) = Some svg \<and> v = JString svg))
     \<and> (\<forall>t \<in> set (arrays w a). m (cc (iconName t)) \<noteq> None \<longrightarrow>
          (\<exists>t' \<in> set (arrays w a). iconName t' = cc (iconName t)))"
proof -
  let ?m = "\<lambda>k. if \<exists>t \<in> set (arrays w a). iconName t = k \<and> truthy (read_icon cat (cc k))
                then Some (read_icon cat (cc k)) else None"
  let ?w' = "w\<lparr>console := console w @
           map (\<lambda>t. ''Icon not found: '' @ iconName t)
             (filter (\<lambda>t. \<not> truthy (read_icon cat (cc (iconName t)))) (arrays w a)),
        registered := registered w @ [?m]\<rparr>"
  have run: "initializeRequiredIcons cc cat (c, w) = (Inr (), c, ?w')"
    using assms by (rule initializeRequiredIcons_eq)
  have keys: "\<forall>k v. ?m k = Some v \<longrightarrow>
          (\<exists>t \<in> set (arrays w a). iconName t = k)
          \<and> (\<exists>svg. cat (cc k) = Some svg \<and> v = JString svg)"
    by (auto simp: read_icon_def split: if_splits option.splits)
  have converted: "\<forall>t \<in> set (arrays w a). ?m (cc (iconName t)) \<noteq> None \<longrightarrow>
          (\<exists>t' \<in> set (arrays w a). iconName t' = cc (iconName t))"
    by (auto split: if_splits)
  have "registered ?w' = registered w @ [?m]" by simp
  with run keys converted show ?thesis by blast
qed

theorem registered_icons_keyed_by_original_names_witness:
  "tabs (active_bar) = ArrayRef 0
   \<and> hd (registered (snd (snd (initializeRequiredIcons camelCase_sample icons_sample
        (active_bar, sample_world))))) ''home-outline'' = Some (JString ''<svg home/>'')
   \<and> icons_sample (camelCase_sample ''home-outline'') = Some ''<svg home/>''
   \<and> hd (registered (snd (snd (initializeRequiredIcons camelCase_sample icons_sample
        (active_bar, sample_world))))) ''settingsOutline'' = None"
proof -
  have t: "tabs (active_bar) = ArrayRef 0" by (simp add: active_bar_def)
  from registered_icons_keyed_by_original_names
    [of "active_bar" 0 camelCase_sample icons_sample sample_world, OF t]
  obtain m w' where
    r: "initializeRequiredIcons camelCase_sample icons_sample (active_bar, sample_world)
          = (Inr (), active_bar, w')"
    and g: "registered w' = registered sample_world @ [m]"
    and k: "\<forall>k v. m k = Some v \<longrightarrow>
          (\<exists>t \<in> set (arrays sample_world 0). iconName t = k)
          \<and> (\<exists>svg. icons_sample (camelCase_sample k) = Some svg \<and> v = JString svg)"
    by blast
  have run: "hd (registered (snd (snd (initializeRequiredIcons camelCase_sample icons_sample
        (active_bar, sample_world))))) = m"
    using r g by (simp add: sample_world_def)
  have "m ''settingsOutline'' = None"
  proof (cases "m ''settingsOutline''")
    case (Some v)
    with k have "\<exists>t \<in> set (arrays sample_world 0). iconName t = ''settingsOutline''" by blast
    then show ?thesis by (simp add: sample_world_def ICON_TABS_def)
  qed simp
  moreover have "m ''home-outline'' = Some (JString ''<svg home/>'')"
    using run [symmetric]
    by (simp add: initializeRequiredIcons_eq [OF t] sample_world_def ICON_TABS_def
        camelCase_sample_def icons_sample_def read_icon_def)
  moreover have "icons_sample (camelCase_sample ''home-outline'') = Some ''<svg home/>''"
    by (simp add: camelCase_sample_def icons_sample_def)
  ultimately show ?thesis using t run by simp
qed

text \<open>
  C10 (as stated) fails. The sample array holds a descriptor with the icon name
  \<open>home-outline\<close> and one with \<open>homeOutline\<close>. The converted name of the first,
  \<open>homeOutline\<close>, differs from the name as written and is a key of the mapping all the
  same, as the name of the other descriptor.
\<close>

theorem camelCased_key_counterexample:
  "ICON_TABS ! 0 \<in> set (arrays sample_world 0)
   \<and> hd (registered (snd (snd (initializeRequiredIcons camelCase_sample icons_sample
        (active_bar, sample_world)))))
       (camelCase_sample (iconName (ICON_TABS ! 0))) = Some (JString ''<svg home/>'')
   \<and> camelCase_sample (iconName (ICON_TABS ! 0)) \<noteq> iconName (ICON_TABS ! 0)"
proof -
  have t: "tabs (active_bar) = ArrayRef 0" by (simp add: active_bar_def)
  show ?thesis
    by (simp add: initializeRequiredIcons_eq [OF t] sample_world_def ICON_TABS_def
        camelCase_sample_def icons_sample_def read_icon_def)
qed

end
